theory Spec2Isabelle
  imports Main "HOL-Library.Char_ord" "HOL-Library.List_Lexorder" "HOL-Library.Product_Lexorder"
    "HOL-Library.Multiset"
begin

section \<open>The deployment script \<^verbatim>\<open>deploy.sh\<close> as a function of its environment\<close>

text \<open>
  \<^verbatim>\<open>deploy.sh\<close> is a sequential shell script running under \<^verbatim>\<open>set -e\<close>. Everything it
  observes of the outside (which tools exist, which files exist at the moment of a test,
  the exit status of every external command, the clock) is collected in a record
  \<open>world\<close>; the part of the file system the script itself writes is the record
  \<open>filesystem\<close>. Every function of the script becomes a function that returns the lines
  and commands it emitted, the new file system, and \<open>Some c\<close> when the shell exited
  with status \<open>c\<close> inside it (an explicit \<^verbatim>\<open>exit\<close>, or a failing command under
  \<^verbatim>\<open>set -e\<close>), \<open>None\<close> when control returns to the caller.
\<close>

subsection \<open>Configuration (lines 14 to 19)\<close>

definition COMPOSE_FILE :: string where
  "COMPOSE_FILE = ''docker-compose.production.yml''"

definition ENV_FILE :: string where
  "ENV_FILE = ''.env.production''"

definition BACKUP_DIR :: string where
  "BACKUP_DIR = ''./backups''"

definition LOG_DIR :: string where
  "LOG_DIR = ''./logs''"

text \<open>\<^verbatim>\<open>ENVIRONMENT=${1:-staging}\<close>: the default is taken when the argument is unset or empty.\<close>

definition ENVIRONMENT :: "string option \<Rightarrow> string" where
  "ENVIRONMENT arg = (case arg of None \<Rightarrow> ''staging'' | Some a \<Rightarrow> if a = [] then ''staging'' else a)"

subsection \<open>The backup name: \<^verbatim>\<open>backup_$(date +'%Y%m%d_%H%M%S')\<close>\<close>

text \<open>
  A reading of the wall clock, broken down as \<^verbatim>\<open>date\<close> does: the year itself (not the
  year minus 1900), the month from 1, and so on, at second granularity.
\<close>

record timestamp =
  tm_year :: nat
  tm_mon :: nat
  tm_mday :: nat
  tm_hour :: nat
  tm_min :: nat
  tm_sec :: nat

definition digit :: "nat \<Rightarrow> char" where
  "digit n = char_of (48 + n)"

text \<open>Decimal digits of a number, most significant first (\<^verbatim>\<open>%Y\<close> on a year from 1000 on).\<close>

fun dec :: "nat \<Rightarrow> string" where
  "dec n = (if n < 10 then [digit n] else dec (n div 10) @ [digit (n mod 10)])"

declare dec.simps [simp del]

text \<open>\<^verbatim>\<open>%m %d %H %M %S\<close>: decimal, padded with a zero to two digits.\<close>

definition pad2 :: "nat \<Rightarrow> string" where
  "pad2 n = (if n < 10 then CHR ''0'' # dec n else dec n)"

definition date_stamp :: "timestamp \<Rightarrow> string" where
  "date_stamp t =
     dec (tm_year t) @ pad2 (tm_mon t) @ pad2 (tm_mday t) @ ''_'' @
     pad2 (tm_hour t) @ pad2 (tm_min t) @ pad2 (tm_sec t)"

definition BACKUP_NAME :: "timestamp \<Rightarrow> string" where
  "BACKUP_NAME t = ''backup_'' @ date_stamp t"

text \<open>Chronological order of two clock readings: the year decides first, the second last.\<close>

definition before :: "timestamp \<Rightarrow> timestamp \<Rightarrow> bool" where
  "before a b =
     (tm_year a < tm_year b \<or> tm_year a = tm_year b \<and>
     (tm_mon a < tm_mon b \<or> tm_mon a = tm_mon b \<and>
     (tm_mday a < tm_mday b \<or> tm_mday a = tm_mday b \<and>
     (tm_hour a < tm_hour b \<or> tm_hour a = tm_hour b \<and>
     (tm_min a < tm_min b \<or> tm_min a = tm_min b \<and> tm_sec a < tm_sec b)))))"

text \<open>The fields \<^verbatim>\<open>date\<close> can print with two digits, and a year of four digits.\<close>

definition two_digit_fields :: "timestamp \<Rightarrow> bool" where
  "two_digit_fields t =
     (tm_mon t < 100 \<and> tm_mday t < 100 \<and> tm_hour t < 100 \<and> tm_min t < 100 \<and> tm_sec t < 100)"

definition four_digit_year :: "timestamp \<Rightarrow> bool" where
  "four_digit_year t = (1000 \<le> tm_year t \<and> tm_year t \<le> 9999)"

subsection \<open>What a run emits, and the files it writes\<close>

datatype level = Status | Warning | Error

text \<open>
  \<open>Print\<close> is a line of \<^verbatim>\<open>print_status\<close>, \<^verbatim>\<open>print_warning\<close> or \<^verbatim>\<open>print_error\<close> (the
  colour codes and the time prefix of a status line are left out); the other events are
  the runs of \<^verbatim>\<open>mkdir\<close>, \<^verbatim>\<open>docker\<close>, \<^verbatim>\<open>docker-compose\<close>, \<^verbatim>\<open>cp\<close>, \<^verbatim>\<open>sleep\<close>, \<^verbatim>\<open>curl\<close> and
  \<^verbatim>\<open>rm\<close>, with their expanded arguments. The tests \<^verbatim>\<open>command -v\<close>, \<^verbatim>\<open>[ -f ]\<close>, \<^verbatim>\<open>[ -d ]\<close>,
  the builtin \<^verbatim>\<open>cd\<close>, the reading of the clock by \<^verbatim>\<open>date\<close> and the filters of a pipeline
  emit nothing.
\<close>

datatype event =
    Print level string
  | Mkdir string
  | Docker string
  | Compose string string
  | Cp string string
  | Sleep nat
  | Curl string
  | Rm "string list"

fun is_print :: "event \<Rightarrow> bool" where
  "is_print (Print l m) = True"
| "is_print e = False"

text \<open>
  A subdirectory of the backup directory: the clock reading it is named after, its
  modification time and the files in it.
\<close>

record backup =
  stamp :: timestamp
  mtime :: nat
  files :: "string list"

definition backup_id :: "backup \<Rightarrow> string" where
  "backup_id b = BACKUP_NAME (stamp b)"

text \<open>
  The directories made by \<^verbatim>\<open>mkdir -p\<close> (a path stands for itself and its parents) and the
  content of the backup directory, which holds what the script puts there: one
  subdirectory for each backup.
\<close>

record filesystem =
  dirs :: "string list"
  backups :: "backup list"

record world =
  has_docker :: bool
  has_docker_compose :: bool
  env_file_at_check :: bool
  compose_file_at_check :: bool
  mkdir_rc :: "string \<Rightarrow> nat"
  date_rc :: nat
  instant :: nat
  clock :: timestamp
  mtime_now :: nat
  containers_running :: bool
  docker_ps_rc :: nat
  env_file_at_backup :: bool
  cp_rc :: nat
  build_rc :: nat
  down_rc :: nat
  up_rc :: nat
  sleep_rc :: nat
  curl_ok :: "string \<Rightarrow> bool"
  image_prune_rc :: nat
  cd_rc :: nat
  undeletable :: "string \<Rightarrow> bool"
  cd_back_rc :: nat
  rollback_down_rc :: nat
  compose_ps_rc :: nat

text \<open>The result of a piece of script: emitted events, file system, exit of the shell.\<close>

type_synonym 'e result = "event list \<times> filesystem \<times> 'e option"

type_synonym 'e step = "filesystem \<Rightarrow> 'e result"

definition trace :: "'e result \<Rightarrow> event list" where
  "trace r = fst r"

definition disk :: "'e result \<Rightarrow> filesystem" where
  "disk r = fst (snd r)"

definition exited :: "'e result \<Rightarrow> 'e option" where
  "exited r = snd (snd r)"

text \<open>Sequencing: the second piece runs only when the shell did not exit in the first.\<close>

definition then_do :: "'e step \<Rightarrow> 'e step \<Rightarrow> 'e step" where
  "then_do f g d =
     (case f d of
        (t1, d1, Some c) \<Rightarrow> (t1, d1, Some c)
      | (t1, d1, None) \<Rightarrow> (case g d1 of (t2, d2, r) \<Rightarrow> (t1 @ t2, d2, r)))"

definition print_status :: "string \<Rightarrow> 'e step" where
  "print_status m d = ([Print Status m], d, None)"

definition print_error :: "string \<Rightarrow> 'e step" where
  "print_error m d = ([Print Error m], d, None)"

definition print_warning :: "string \<Rightarrow> 'e step" where
  "print_warning m d = ([Print Warning m], d, None)"

definition exit_with :: "nat \<Rightarrow> nat step" where
  "exit_with c d = ([], d, Some c)"

text \<open>
  A simple command outside a condition, under \<^verbatim>\<open>set -e\<close>: it is run; with status 0 its
  effect is applied and the script goes on, with any other status the shell exits with
  that status.
\<close>

definition command :: "event \<Rightarrow> nat \<Rightarrow> (filesystem \<Rightarrow> filesystem) \<Rightarrow> nat step" where
  "command e rc effect d = (if rc = 0 then ([e], effect d, None) else ([e], d, Some rc))"

definition builtin :: "nat \<Rightarrow> nat step" where
  "builtin rc d = ([], d, if rc = 0 then None else Some rc)"

text \<open>
  \<^verbatim>\<open>NAME="...$(cmd)"\<close> under \<^verbatim>\<open>set -e\<close>: the status of the assignment is the status of
  the command substitution, so a failing \<^verbatim>\<open>cmd\<close> ends the script at the assignment. (A
  substitution inside the argument of \<^verbatim>\<open>echo\<close>, as in \<^verbatim>\<open>print_status\<close>, does not: there
  the status is that of \<^verbatim>\<open>echo\<close>.)
\<close>

definition assigned :: "nat \<Rightarrow> nat step" where
  "assigned rc d = ([], d, if rc = 0 then None else Some rc)"

definition skip :: "'e step" where
  "skip d = ([], d, None)"

text \<open>A command run as the test of an \<^verbatim>\<open>if\<close>: its status never ends the script.\<close>

definition tested :: "event \<Rightarrow> 'e step" where
  "tested e d = ([e], d, None)"

text \<open>
  \<^verbatim>\<open>cmd > file\<close> under \<^verbatim>\<open>set -e\<close>: the shell creates the file before the command runs, so
  the file is there whatever the status of the command.
\<close>

definition redirected :: "event \<Rightarrow> nat \<Rightarrow> (filesystem \<Rightarrow> filesystem) \<Rightarrow> nat step" where
  "redirected e rc create d = ([e], create d, if rc = 0 then None else Some rc)"

subsection \<open>\<^verbatim>\<open>check_prerequisites\<close> (lines 35 to 63)\<close>

definition check_prerequisites :: "world \<Rightarrow> nat step" where
  "check_prerequisites w =
     then_do (print_status ''Checking prerequisites...'')
       (if \<not> has_docker w then
          then_do (print_error ''Docker is not installed'') (exit_with 1)
        else if \<not> has_docker_compose w then
          then_do (print_error ''Docker Compose is not installed'') (exit_with 1)
        else if \<not> env_file_at_check w then
          then_do (print_error (''Environment file '' @ ENV_FILE @ '' not found'')) (exit_with 1)
        else if \<not> compose_file_at_check w then
          then_do (print_error (''Docker Compose file '' @ COMPOSE_FILE @ '' not found''))
            (exit_with 1)
        else print_status ''Prerequisites check passed'')"

subsection \<open>\<^verbatim>\<open>create_directories\<close> (lines 66 to 76)\<close>

definition mkdir_p :: "world \<Rightarrow> string \<Rightarrow> nat step" where
  "mkdir_p w p = command (Mkdir p) (mkdir_rc w p) (\<lambda>d. d\<lparr>dirs := List.insert p (dirs d)\<rparr>)"

definition create_directories :: "world \<Rightarrow> nat step" where
  "create_directories w =
     then_do (print_status ''Creating necessary directories...'')
    (then_do (mkdir_p w BACKUP_DIR)
    (then_do (mkdir_p w (LOG_DIR @ ''/nginx''))
    (then_do (mkdir_p w (LOG_DIR @ ''/main-api''))
    (then_do (mkdir_p w (LOG_DIR @ ''/scraper-api''))
    (then_do (mkdir_p w ''./ssl'')
       (print_status ''Directories created''))))))"

subsection \<open>\<^verbatim>\<open>backup_current\<close> (lines 79 to 98)\<close>

text \<open>
  Line 82 assigns the name from \<^verbatim>\<open>date\<close>, which prints local time: \<open>instant w\<close> is the
  moment the line runs, in seconds since the epoch, \<open>clock w\<close> is the reading of the
  local clock that \<^verbatim>\<open>date\<close> prints at that moment (which reading belongs to which moment
  is decided by the time zone rules of the machine), and \<open>date_rc w\<close> is its status.
  \<^verbatim>\<open>mkdir -p "$BACKUP_DIR/$BACKUP_NAME"\<close>: nothing changes when a directory of that name
  is there already (a second run within the same second); otherwise an empty one appears.
\<close>

definition new_backup_dir :: "world \<Rightarrow> filesystem \<Rightarrow> filesystem" where
  "new_backup_dir w d =
     (if list_ex (\<lambda>b. backup_id b = BACKUP_NAME (clock w)) (backups d)
      then d\<lparr>dirs := List.insert BACKUP_DIR (dirs d)\<rparr>
      else d\<lparr>dirs := List.insert BACKUP_DIR (dirs d),
             backups := backups d @ [\<lparr>stamp = clock w, mtime = mtime_now w, files = []\<rparr>]\<rparr>)"

text \<open>
  Writing file \<open>f\<close> into the backup directory named \<open>n\<close>: a new file changes the
  modification time of the directory, an existing one is overwritten in place.
\<close>

definition add_file :: "world \<Rightarrow> string \<Rightarrow> string \<Rightarrow> filesystem \<Rightarrow> filesystem" where
  "add_file w n f d =
     d\<lparr>backups :=
         map (\<lambda>b. if backup_id b = n \<and> f \<notin> set (files b)
                   then b\<lparr>files := files b @ [f], mtime := mtime_now w\<rparr> else b)
           (backups d)\<rparr>"

definition backup_current :: "world \<Rightarrow> nat step" where
  "backup_current w =
     (let name = BACKUP_NAME (clock w); target = BACKUP_DIR @ ''/'' @ name in
      then_do (print_status ''Creating backup of current deployment...'')
     (then_do (assigned (date_rc w))
     (then_do (command (Mkdir target) (mkdir_rc w target) (new_backup_dir w))
     (then_do (tested (Docker ''ps -q''))
     (then_do
        (if containers_running w then
           then_do (redirected (Docker ''ps -a'') (docker_ps_rc w) (add_file w name ''docker_ps.txt''))
             (print_status ''Docker container list backed up'')
         else skip)
     (then_do
        (if env_file_at_backup w then
           then_do (command (Cp ENV_FILE (target @ ''/'')) (cp_rc w) (add_file w name ENV_FILE))
             (print_status ''Environment file backed up'')
         else skip)
        (print_status (''Backup completed: '' @ name))))))))"

subsection \<open>\<^verbatim>\<open>build_images\<close> and \<^verbatim>\<open>deploy_services\<close> (lines 101 to 126)\<close>

definition build_images :: "world \<Rightarrow> nat step" where
  "build_images w =
     then_do (print_status ''Building Docker images...'')
    (then_do (command (Compose COMPOSE_FILE ''build --no-cache'') (build_rc w) id)
       (print_status ''Docker images built successfully''))"

definition deploy_services :: "world \<Rightarrow> nat step" where
  "deploy_services w =
     then_do (print_status ''Deploying services...'')
    (then_do (print_status ''Stopping existing containers...'')
    (then_do (command (Compose COMPOSE_FILE ''down'') (down_rc w) id)
    (then_do (print_status ''Starting new containers...'')
    (then_do (command (Compose COMPOSE_FILE ''up -d'') (up_rc w) id)
    (then_do (print_status ''Waiting for services to be ready...'')
    (then_do (command (Sleep 10) (sleep_rc w) id)
       (print_status ''Services deployed'')))))))"

subsection \<open>\<^verbatim>\<open>health_check\<close> (lines 129 to 157)\<close>

definition MAIN_API_URL :: string where
  "MAIN_API_URL = ''http://localhost:8000/health/ready''"

definition SCRAPER_API_URL :: string where
  "SCRAPER_API_URL = ''http://localhost:8001/health''"

definition FRONTEND_URL :: string where
  "FRONTEND_URL = ''http://localhost/health''"

text \<open>
  The function is only called as the condition of an \<^verbatim>\<open>if\<close>, where \<^verbatim>\<open>set -e\<close> is off:
  it returns its lines and its status, 0 or 1. \<open>curl_ok w u\<close> is the success of
  \<^verbatim>\<open>curl -f u\<close>.
\<close>

definition health_check :: "world \<Rightarrow> event list \<times> nat" where
  "health_check w =
     (if curl_ok w MAIN_API_URL then
        (if curl_ok w SCRAPER_API_URL then
           (if curl_ok w FRONTEND_URL then
              ([Print Status ''Running health checks...'',
                Curl MAIN_API_URL, Print Status ''Main API is healthy'',
                Curl SCRAPER_API_URL, Print Status ''Scraper API is healthy'',
                Curl FRONTEND_URL, Print Status ''Frontend is healthy'',
                Print Status ''All health checks passed''], 0)
            else
              ([Print Status ''Running health checks...'',
                Curl MAIN_API_URL, Print Status ''Main API is healthy'',
                Curl SCRAPER_API_URL, Print Status ''Scraper API is healthy'',
                Curl FRONTEND_URL, Print Error ''Frontend health check failed''], 1))
         else
           ([Print Status ''Running health checks...'',
             Curl MAIN_API_URL, Print Status ''Main API is healthy'',
             Curl SCRAPER_API_URL, Print Error ''Scraper API health check failed''], 1))
      else
        ([Print Status ''Running health checks...'',
          Curl MAIN_API_URL, Print Error ''Main API health check failed''], 1))"

subsection \<open>\<^verbatim>\<open>cleanup\<close> (lines 160 to 173)\<close>

text \<open>
  \<^verbatim>\<open>ls -t\<close> lists by modification time, newest first, and by name where the times are
  equal.
\<close>

definition ls_t :: "backup list \<Rightarrow> backup list" where
  "ls_t bs = sort_key (\<lambda>b. (- int (mtime b), backup_id b)) bs"

text \<open>\<^verbatim>\<open>ls -t | tail -n +6\<close>: the names from the sixth line on.\<close>

definition prune_victims :: "backup list \<Rightarrow> string list" where
  "prune_victims bs = drop 5 (map backup_id (ls_t bs))"

text \<open>
  \<^verbatim>\<open>... | xargs -r rm -rf\<close>: nothing is run on empty input. \<^verbatim>\<open>rm -rf\<close> removes what it
  can and fails when something could not be removed; \<^verbatim>\<open>xargs\<close> then ends with status
  123, which is the status of the pipeline.
\<close>

definition rm_rf :: "world \<Rightarrow> string list \<Rightarrow> backup list \<Rightarrow> backup list" where
  "rm_rf w vs bs = filter (\<lambda>b. \<not> (backup_id b \<in> set vs \<and> \<not> undeletable w (backup_id b))) bs"

definition prune_backups :: "world \<Rightarrow> nat step" where
  "prune_backups w d =
     (let vs = prune_victims (backups d) in
      if vs = [] then ([], d, None)
      else ([Rm vs], d\<lparr>backups := rm_rf w vs (backups d)\<rparr>,
            if list_ex (undeletable w) vs then Some 123 else None))"

definition cleanup :: "world \<Rightarrow> nat step" where
  "cleanup w =
     then_do (print_status ''Cleaning up old images...'')
    (then_do (command (Docker ''image prune -f'') (image_prune_rc w) id)
    (then_do
       (\<lambda>d. if BACKUP_DIR \<in> set (dirs d) then
               then_do (builtin (cd_rc w))
              (then_do (prune_backups w)
                 (builtin (cd_back_rc w))) d
             else skip d)
       (print_status ''Cleanup completed'')))"

subsection \<open>\<^verbatim>\<open>main\<close> (lines 176 to 203)\<close>

text \<open>The place of the script where the shell exited, kept beside the exit status.\<close>

datatype stage =
  Prerequisites | Directories | Backup | Build | Cutover | HealthCheck | Teardown | Cleanup | Listing

definition at :: "stage \<Rightarrow> nat step \<Rightarrow> (stage \<times> nat) step" where
  "at st f d = (case f d of (t, d', r) \<Rightarrow> (t, d', map_option (\<lambda>c. (st, c)) r))"

definition main :: "string option \<Rightarrow> world \<Rightarrow> (stage \<times> nat) step" where
  "main arg w =
     then_do (print_status (''Starting deployment for environment: '' @ ENVIRONMENT arg))
    (then_do (at Prerequisites (check_prerequisites w))
    (then_do (at Directories (create_directories w))
    (then_do (at Backup (backup_current w))
    (then_do (at Build (build_images w))
    (then_do (at Cutover (deploy_services w))
    (then_do
       (then_do (\<lambda>d. (fst (health_check w), d, None))
          (if snd (health_check w) = 0 then
             then_do (print_status ''Deployment completed successfully!'')
               (at Cleanup (cleanup w))
           else
             then_do (print_error ''Deployment failed! Rolling back...'')
            (then_do (at Teardown (command (Compose COMPOSE_FILE ''down'') (rollback_down_rc w) id))
               (at HealthCheck (exit_with 1)))))
    (then_do (print_status ''Running containers:'')
    (then_do (at Listing (command (Compose COMPOSE_FILE ''ps'') (compose_ps_rc w) id))
       (print_status (''Deployment logs available at: '' @ LOG_DIR))))))))))"

text \<open>The exit status of the script: 0 when \<^verbatim>\<open>main\<close> returns.\<close>

definition exit_code :: "(stage \<times> nat) result \<Rightarrow> nat" where
  "exit_code r = (case exited r of None \<Rightarrow> 0 | Some (st, c) \<Rightarrow> c)"

text \<open>
  Two pieces of \<^verbatim>\<open>main\<close>, named for the proofs: the five calls of lines 179 to 183, and
  the rest of the function from the health check on (lines 186 to 199).
\<close>

definition stages :: "world \<Rightarrow> (stage \<times> nat) step" where
  "stages w =
     then_do (at Prerequisites (check_prerequisites w))
    (then_do (at Directories (create_directories w))
    (then_do (at Backup (backup_current w))
    (then_do (at Build (build_images w))
       (at Cutover (deploy_services w)))))"

definition finish :: "world \<Rightarrow> (stage \<times> nat) step" where
  "finish w =
     then_do
       (then_do (\<lambda>d. (fst (health_check w), d, None))
          (if snd (health_check w) = 0 then
             then_do (print_status ''Deployment completed successfully!'')
               (at Cleanup (cleanup w))
           else
             then_do (print_error ''Deployment failed! Rolling back...'')
            (then_do (at Teardown (command (Compose COMPOSE_FILE ''down'') (rollback_down_rc w) id))
               (at HealthCheck (exit_with 1)))))
    (then_do (print_status ''Running containers:'')
    (then_do (at Listing (command (Compose COMPOSE_FILE ''ps'') (compose_ps_rc w) id))
       (print_status (''Deployment logs available at: '' @ LOG_DIR))))"

subsection \<open>Reading a trace\<close>

fun probed :: "event list \<Rightarrow> string list" where
  "probed [] = []"
| "probed (Curl u # t) = u # probed t"
| "probed (e # t) = probed t"

fun error_lines :: "event list \<Rightarrow> string list" where
  "error_lines [] = []"
| "error_lines (Print Error m # t) = m # error_lines t"
| "error_lines (e # t) = error_lines t"

text \<open>The three checks of \<^verbatim>\<open>health_check\<close> in the order of the script: endpoint and label.\<close>

definition HEALTH_CHECKS :: "(string \<times> string) list" where
  "HEALTH_CHECKS =
     [(MAIN_API_URL, ''Main API''), (SCRAPER_API_URL, ''Scraper API''), (FRONTEND_URL, ''Frontend'')]"

definition first_unhealthy :: "world \<Rightarrow> (string \<times> string) option" where
  "first_unhealthy w = find (\<lambda>c. \<not> curl_ok w (fst c)) HEALTH_CHECKS"

subsection \<open>Sample environments\<close>

definition noon :: timestamp where
  "noon = \<lparr>tm_year = 2024, tm_mon = 3, tm_mday = 9, tm_hour = 12, tm_min = 0, tm_sec = 0\<rparr>"

text \<open>Everything is installed, every file is there, every command succeeds.\<close>

definition fine :: world where
  "fine =
     \<lparr>has_docker = True, has_docker_compose = True,
      env_file_at_check = True, compose_file_at_check = True,
      mkdir_rc = (\<lambda>p. 0), date_rc = 0,
      instant = 1709982000, clock = noon, mtime_now = 700,
      containers_running = True, docker_ps_rc = 0, env_file_at_backup = True, cp_rc = 0,
      build_rc = 0, down_rc = 0, up_rc = 0, sleep_rc = 0, curl_ok = (\<lambda>u. True),
      image_prune_rc = 0, cd_rc = 0, undeletable = (\<lambda>n. False), cd_back_rc = 0,
      rollback_down_rc = 0, compose_ps_rc = 0\<rparr>"

definition empty_disk :: filesystem where
  "empty_disk = \<lparr>dirs = [], backups = []\<rparr>"

text \<open>Only the front end answers its probe.\<close>

definition two_down :: world where
  "two_down = fine\<lparr>curl_ok := (\<lambda>u. u = FRONTEND_URL)\<rparr>"

text \<open>The environment file is gone when the prerequisites are checked.\<close>

definition env_missing :: world where
  "env_missing = fine\<lparr>env_file_at_check := False\<rparr>"

text \<open>The environment file is there at the check and gone when the backup is taken.\<close>

definition env_vanishes :: world where
  "env_vanishes = fine\<lparr>env_file_at_backup := False\<rparr>"


text \<open>The health check fails, and the teardown of the rollback is killed (status 137).\<close>

definition teardown_killed :: world where
  "teardown_killed = two_down\<lparr>rollback_down_rc := 137\<rparr>"

text \<open>Every service is healthy, and \<^verbatim>\<open>docker image prune -f\<close> ends with status 1.\<close>

definition prune_fails :: world where
  "prune_fails = fine\<lparr>image_prune_rc := 1\<rparr>"

text \<open>
  Six backups taken at noon on six consecutive days. The oldest one was modified last
  (a file was put into it later), the others were not touched after their creation.
\<close>

definition on_day :: "nat \<Rightarrow> timestamp" where
  "on_day n = noon\<lparr>tm_mday := n\<rparr>"


text \<open>
  Two runs in the time zone of Berlin in the night of 27 October 2024, when summer time
  ends at 03:00 and the local clock is set back to 02:00: the first backup is named at
  00:30:00 UTC, which is 02:30:00 local summer time, and the second forty minutes later,
  at 01:10:00 UTC, which is 02:10:00 local standard time.
\<close>

definition before_switch :: world where
  "before_switch =
     fine\<lparr>instant := 1729989000,
          clock := \<lparr>tm_year = 2024, tm_mon = 10, tm_mday = 27,
                    tm_hour = 2, tm_min = 30, tm_sec = 0\<rparr>\<rparr>"

definition after_switch :: world where
  "after_switch =
     fine\<lparr>instant := 1729991400,
          clock := \<lparr>tm_year = 2024, tm_mon = 10, tm_mday = 27,
                    tm_hour = 2, tm_min = 10, tm_sec = 0\<rparr>\<rparr>"

text \<open>The last second of the year 9999 and the first second of the year 10000.\<close>

definition last_of_9999 :: timestamp where
  "last_of_9999 =
     \<lparr>tm_year = 9999, tm_mon = 12, tm_mday = 31, tm_hour = 23, tm_min = 59, tm_sec = 59\<rparr>"

definition first_of_10000 :: timestamp where
  "first_of_10000 =
     \<lparr>tm_year = 10000, tm_mon = 1, tm_mday = 1, tm_hour = 0, tm_min = 0, tm_sec = 0\<rparr>"

section \<open>Laws of sequencing\<close>

lemma result_simps [simp]:
  "exited (t, d, r) = r" "disk (t, d, r) = d" "trace (t, d, r) = t"
  by (simp_all add: exited_def disk_def trace_def)

lemma exited_then_do [simp]:
  "exited (then_do f g d) =
     (case exited (f d) of Some c \<Rightarrow> Some c | None \<Rightarrow> exited (g (disk (f d))))"
  by (simp add: exited_def disk_def then_do_def split: prod.splits option.splits)

lemma disk_then_do [simp]:
  "disk (then_do f g d) =
     (case exited (f d) of Some c \<Rightarrow> disk (f d) | None \<Rightarrow> disk (g (disk (f d))))"
  by (simp add: exited_def disk_def then_do_def split: prod.splits option.splits)

lemma trace_then_do [simp]:
  "trace (then_do f g d) =
     (case exited (f d) of
        Some c \<Rightarrow> trace (f d)
      | None \<Rightarrow> trace (f d) @ trace (g (disk (f d))))"
  by (simp add: exited_def disk_def trace_def then_do_def split: prod.splits option.splits)

lemma then_do_assoc: "then_do (then_do f g) h = then_do f (then_do g h)"
  by (rule ext) (simp add: then_do_def split: prod.splits option.splits)

lemma at_simps [simp]:
  "exited (at st f d) = map_option (\<lambda>c. (st, c)) (exited (f d))"
  "disk (at st f d) = disk (f d)"
  "trace (at st f d) = trace (f d)"
  by (simp_all add: exited_def disk_def trace_def at_def split: prod.splits)

lemma print_simps [simp]:
  "exited (print_status m d) = None" "disk (print_status m d) = d"
  "trace (print_status m d) = [Print Status m]"
  "exited (print_error m d) = None" "disk (print_error m d) = d"
  "trace (print_error m d) = [Print Error m]"
  by (simp_all add: print_status_def print_error_def)

lemma command_simps [simp]:
  "exited (command e rc eff d) = (if rc = 0 then None else Some rc)"
  "disk (command e rc eff d) = (if rc = 0 then eff d else d)"
  "trace (command e rc eff d) = [e]"
  by (simp_all add: command_def)

lemma builtin_simps [simp]:
  "exited (exit_with c d) = Some c" "disk (exit_with c d) = d" "trace (exit_with c d) = []"
  "exited (builtin rc d) = (if rc = 0 then None else Some rc)"
  "disk (builtin rc d) = d" "trace (builtin rc d) = []"
  "exited (skip d) = None" "disk (skip d) = d" "trace (skip d) = []"
  "exited (assigned rc d) = (if rc = 0 then None else Some rc)"
  "disk (assigned rc d) = d" "trace (assigned rc d) = []"
  "exited (tested e d) = None" "disk (tested e d) = d" "trace (tested e d) = [e]"
  "exited (redirected e rc eff d) = (if rc = 0 then None else Some rc)"
  "disk (redirected e rc eff d) = eff d"
  "trace (redirected e rc eff d) = [e]"
  by (simp_all add: exit_with_def builtin_def skip_def tested_def redirected_def
        assigned_def)

lemma if_step_simps [simp]:
  "exited ((if b then f else g) d) = (if b then exited (f d) else exited (g d))"
  "disk ((if b then f else g) d) = (if b then disk (f d) else disk (g d))"
  "trace ((if b then f else g) d) = (if b then trace (f d) else trace (g d))"
  by simp_all

lemma main_split:
  "main a w =
     then_do (print_status (''Starting deployment for environment: '' @ ENVIRONMENT a))
       (then_do (stages w) (finish w))"
  by (simp add: main_def stages_def finish_def then_do_assoc)

section \<open>Health verification\<close>

lemma urls_distinct:
  "MAIN_API_URL \<noteq> SCRAPER_API_URL" "MAIN_API_URL \<noteq> FRONTEND_URL"
  "SCRAPER_API_URL \<noteq> FRONTEND_URL" "SCRAPER_API_URL \<noteq> MAIN_API_URL"
  "FRONTEND_URL \<noteq> MAIN_API_URL" "FRONTEND_URL \<noteq> SCRAPER_API_URL"
  by (simp_all add: MAIN_API_URL_def SCRAPER_API_URL_def FRONTEND_URL_def)

text \<open>
  C7. The status of \<^verbatim>\<open>health_check\<close> is 0 exactly when every one of the three probes
  succeeds, and 1 exactly when at least one of them would fail: the verdict is the
  conjunction of the per-service results, and there is no third outcome.
\<close>

theorem health_verdict_is_conjunction:
  "(snd (health_check w) = 0) = (\<forall>c \<in> set HEALTH_CHECKS. curl_ok w (fst c))
   \<and> (snd (health_check w) = 1) = (\<exists>c \<in> set HEALTH_CHECKS. \<not> curl_ok w (fst c))"
  by (simp add: health_check_def HEALTH_CHECKS_def)

theorem health_verdict_is_conjunction_witness:
  "snd (health_check two_down) = 1 \<and> (\<exists>c \<in> set HEALTH_CHECKS. \<not> curl_ok two_down (fst c))
   \<and> snd (health_check fine) = 0 \<and> list_all (\<lambda>c. curl_ok fine (fst c)) HEALTH_CHECKS"
  using health_verdict_is_conjunction [of two_down] health_verdict_is_conjunction [of fine]
  by (simp add: two_down_def fine_def HEALTH_CHECKS_def urls_distinct list_all_iff)

text \<open>
  C2, as the script has it. The checks run in the order main API, scraper API, front
  end, and \<^verbatim>\<open>health_check\<close> returns at the first probe that fails: the endpoints probed
  are those up to and including the first unhealthy one, and the only error line names
  that service. Services behind it are neither probed nor reported.
\<close>

theorem health_check_stops_at_first_failure:
  "probed (fst (health_check w)) =
     (case first_unhealthy w of
        None \<Rightarrow> map fst HEALTH_CHECKS
      | Some c \<Rightarrow> takeWhile (\<lambda>u. u \<noteq> fst c) (map fst HEALTH_CHECKS) @ [fst c])
   \<and> error_lines (fst (health_check w)) =
     (case first_unhealthy w of
        None \<Rightarrow> []
      | Some c \<Rightarrow> [snd c @ '' health check failed''])"
  by (simp add: health_check_def first_unhealthy_def HEALTH_CHECKS_def urls_distinct)

theorem health_check_stops_at_first_failure_witness:
  "first_unhealthy two_down = Some (MAIN_API_URL, ''Main API'')
   \<and> probed (fst (health_check two_down)) = [MAIN_API_URL]
   \<and> error_lines (fst (health_check two_down)) = [''Main API health check failed'']"
  using health_check_stops_at_first_failure [of two_down]
  by (simp add: first_unhealthy_def HEALTH_CHECKS_def two_down_def fine_def urls_distinct)

text \<open>
  With the main API and the scraper API both down, the scraper API is unhealthy but it
  is not probed, and no line of the report names it.
\<close>

theorem health_check_names_every_failure_counterexample:
  "\<not> curl_ok two_down SCRAPER_API_URL
   \<and> snd (health_check two_down) = 1
   \<and> Curl SCRAPER_API_URL \<notin> set (fst (health_check two_down))
   \<and> Print Error ''Scraper API health check failed'' \<notin> set (fst (health_check two_down))"
  by (simp add: health_check_def two_down_def fine_def urls_distinct)

section \<open>Where and with which status the script ends\<close>

lemma exited_check_prerequisites:
  "exited (check_prerequisites w d) =
     (if has_docker w \<and> has_docker_compose w \<and> env_file_at_check w \<and> compose_file_at_check w
      then None else Some 1)"
  by (simp add: check_prerequisites_def)


lemma exited_create_directories_eq:
  "exited (create_directories w d) =
     (if mkdir_rc w BACKUP_DIR \<noteq> 0 then Some (mkdir_rc w BACKUP_DIR)
      else if mkdir_rc w (LOG_DIR @ ''/nginx'') \<noteq> 0 then Some (mkdir_rc w (LOG_DIR @ ''/nginx''))
      else if mkdir_rc w (LOG_DIR @ ''/main-api'') \<noteq> 0
        then Some (mkdir_rc w (LOG_DIR @ ''/main-api''))
      else if mkdir_rc w (LOG_DIR @ ''/scraper-api'') \<noteq> 0
        then Some (mkdir_rc w (LOG_DIR @ ''/scraper-api''))
      else if mkdir_rc w ''./ssl'' \<noteq> 0 then Some (mkdir_rc w ''./ssl'')
      else None)"
  by (simp add: create_directories_def mkdir_p_def)

lemma exited_backup_current:
  "exited (backup_current w d) =
     (if date_rc w \<noteq> 0 then Some (date_rc w)
      else if mkdir_rc w (BACKUP_DIR @ ''/'' @ BACKUP_NAME (clock w)) \<noteq> 0
        then Some (mkdir_rc w (BACKUP_DIR @ ''/'' @ BACKUP_NAME (clock w)))
      else if containers_running w \<and> docker_ps_rc w \<noteq> 0 then Some (docker_ps_rc w)
      else if env_file_at_backup w \<and> cp_rc w \<noteq> 0 then Some (cp_rc w)
      else None)"
  by (simp add: backup_current_def Let_def)

lemma exited_build_images:
  "exited (build_images w d) = (if build_rc w = 0 then None else Some (build_rc w))"
  by (simp add: build_images_def)

lemma exited_deploy_services:
  "exited (deploy_services w d) =
     (if down_rc w \<noteq> 0 then Some (down_rc w)
      else if up_rc w \<noteq> 0 then Some (up_rc w)
      else if sleep_rc w \<noteq> 0 then Some (sleep_rc w) else None)"
  by (simp add: deploy_services_def)



lemmas exited_stage_eqs =
  exited_check_prerequisites exited_create_directories_eq exited_backup_current
  exited_build_images exited_deploy_services


lemma exited_finish:
  "exited (finish w d) =
     (if snd (health_check w) \<noteq> 0 then
        (if rollback_down_rc w = 0 then Some (HealthCheck, 1)
         else Some (Teardown, rollback_down_rc w))
      else
        (case exited (cleanup w d) of
           Some c \<Rightarrow> Some (Cleanup, c)
         | None \<Rightarrow> if compose_ps_rc w = 0 then None else Some (Listing, compose_ps_rc w)))"
  by (simp add: finish_def split: option.splits)

lemma exited_main:
  "exited (main a w d) =
     (case exited (stages w d) of
        Some x \<Rightarrow> Some x
      | None \<Rightarrow> exited (finish w (disk (stages w d))))"
  by (simp add: main_split)



section \<open>The prerequisite check gates the run\<close>

text \<open>
  C6. When a required tool (\<^verbatim>\<open>docker\<close>, \<^verbatim>\<open>docker-compose\<close>) or a required file (the
  environment file, the compose file) is missing, the script exits with status 1 inside
  \<^verbatim>\<open>check_prerequisites\<close>: the file system is as before, and the run emitted log lines
  only, so that no directory was made, no backup written, and neither the build nor a
  command on the stack was run.
\<close>

theorem missing_prerequisite_stops_run:
  assumes "\<not> (has_docker w \<and> has_docker_compose w \<and> env_file_at_check w \<and> compose_file_at_check w)"
  shows "exited (main a w d) = Some (Prerequisites, 1)
    \<and> exit_code (main a w d) = 1
    \<and> disk (main a w d) = d
    \<and> list_all is_print (trace (main a w d))"
  using assms by (auto simp add: main_def check_prerequisites_def exit_code_def)

theorem missing_prerequisite_stops_run_witness:
  "\<not> env_file_at_check env_missing
   \<and> exited (main None env_missing empty_disk) = Some (Prerequisites, 1)
   \<and> disk (main None env_missing empty_disk) = empty_disk
   \<and> trace (main None env_missing empty_disk) =
       [Print Status ''Starting deployment for environment: staging'',
        Print Status ''Checking prerequisites...'',
        Print Error ''Environment file .env.production not found'']"
proof -
  have h: "\<not> (has_docker env_missing \<and> has_docker_compose env_missing
              \<and> env_file_at_check env_missing \<and> compose_file_at_check env_missing)"
    by (simp add: env_missing_def fine_def)
  have t: "trace (main None env_missing empty_disk) =
       [Print Status ''Starting deployment for environment: staging'',
        Print Status ''Checking prerequisites...'',
        Print Error ''Environment file .env.production not found'']"
    by (simp add: main_def check_prerequisites_def env_missing_def fine_def ENVIRONMENT_def
          ENV_FILE_def)
  from missing_prerequisite_stops_run [OF h, of None empty_disk] t show ?thesis
    by (simp add: env_missing_def fine_def)
qed

section \<open>The environment argument\<close>

text \<open>
  C9. The argument of the script is used in the first status line and nowhere else: two
  runs in the same surroundings that differ in the argument only emit the same events
  after that line (the same commands on the same compose file, environment file and
  directories), leave the same files and end in the same place with the same status.
  Without an argument the line names \<^verbatim>\<open>staging\<close>.
\<close>

theorem environment_only_in_first_line:
  "trace (main a w d) =
     Print Status (''Starting deployment for environment: '' @ ENVIRONMENT a)
       # tl (trace (main b w d))
   \<and> disk (main a w d) = disk (main b w d)
   \<and> exited (main a w d) = exited (main b w d)
   \<and> exit_code (main a w d) = exit_code (main b w d)
   \<and> ENVIRONMENT None = ''staging''"
  by (simp add: main_split exit_code_def ENVIRONMENT_def split: option.splits)

theorem environment_only_in_first_line_witness:
  "trace (main (Some ''production'') fine empty_disk) =
     Print Status ''Starting deployment for environment: production''
       # tl (trace (main (Some ''staging'') fine empty_disk))
   \<and> exit_code (main (Some ''production'') fine empty_disk) =
       exit_code (main (Some ''staging'') fine empty_disk)"
  using environment_only_in_first_line [of "Some ''production''" fine empty_disk "Some ''staging''"]
  by (simp add: ENVIRONMENT_def)

section \<open>A backup without the environment file\<close>

lemma add_file_other_names:
  assumes "\<not> list_ex (\<lambda>b. backup_id b = n) bs"
  shows "map (\<lambda>b. if backup_id b = n \<and> f \<notin> set (files b)
                   then b\<lparr>files := files b @ [f], mtime := m\<rparr> else b) bs = bs"
  using assms by (induction bs) auto

lemma backup_id_new: "backup_id \<lparr>stamp = s, mtime = m, files = fs\<rparr> = BACKUP_NAME s"
  by (simp add: backup_id_def)

lemma disk_check_prerequisites: "disk (check_prerequisites w d) = d"
  by (simp add: check_prerequisites_def)

lemma backups_create_directories: "backups (disk (create_directories w d)) = backups d"
  by (simp add: create_directories_def mkdir_p_def)

lemma disk_build_images: "disk (build_images w d) = d"
  by (simp add: build_images_def)

lemma disk_deploy_services: "disk (deploy_services w d) = d"
  by (simp add: deploy_services_def)

text \<open>The script up to the build, when the first three steps return.\<close>

lemma stages_through_backup:
  assumes "exited (check_prerequisites w d) = None"
    and "exited (create_directories w d) = None"
    and "exited (backup_current w (disk (create_directories w d))) = None"
  shows "\<exists>rest. trace (stages w d) =
      trace (check_prerequisites w d) @ trace (create_directories w d)
      @ trace (backup_current w (disk (create_directories w d)))
      @ Print Status ''Building Docker images...''
        # Compose COMPOSE_FILE ''build --no-cache'' # rest"
    and "disk (stages w d) = disk (backup_current w (disk (create_directories w d)))"
    and "exited (stages w d) \<noteq> Some (Prerequisites, c)"
    and "exited (stages w d) \<noteq> Some (Directories, c)"
    and "exited (stages w d) \<noteq> Some (Backup, c)"
  using assms
  by (simp_all add: stages_def disk_check_prerequisites build_images_def disk_deploy_services
        split: option.splits)

text \<open>
  C10. When the environment file is not there at the moment \<^verbatim>\<open>backup_current\<close> tests
  for it, the copy is skipped without a word. Given that the backup can be named and its
  directory made, and that the container listing (if any container runs) can be
  written, \<^verbatim>\<open>backup_current\<close> returns normally, it ran no \<^verbatim>\<open>cp\<close> and printed no error,
  and the new backup directory holds no copy of the environment file. In a run whose
  prerequisite check and directory creation pass, the script then goes on: the lines of
  the backup are followed by the build command, the script does not end in or before
  the backup step, and the backup without the environment file is on disk when the
  five steps are over.
\<close>

theorem backup_without_environment_file:
  assumes "\<not> env_file_at_backup w"
    and "date_rc w = 0"
    and "mkdir_rc w (BACKUP_DIR @ ''/'' @ BACKUP_NAME (clock w)) = 0"
    and "containers_running w \<longrightarrow> docker_ps_rc w = 0"
    and "\<not> list_ex (\<lambda>b. backup_id b = BACKUP_NAME (clock w)) (backups d)"
    and "exited (check_prerequisites w d) = None"
    and "exited (create_directories w d) = None"
  shows "exited (backup_current w d) = None
    \<and> trace (backup_current w d) =
        [Print Status ''Creating backup of current deployment...'',
         Mkdir (BACKUP_DIR @ ''/'' @ BACKUP_NAME (clock w)), Docker ''ps -q'']
        @ (if containers_running w
           then [Docker ''ps -a'', Print Status ''Docker container list backed up''] else [])
        @ [Print Status (''Backup completed: '' @ BACKUP_NAME (clock w))]
    \<and> backups (disk (backup_current w d)) =
        backups d @ [\<lparr>stamp = clock w, mtime = mtime_now w,
                      files = (if containers_running w then [''docker_ps.txt''] else [])\<rparr>]
    \<and> (\<exists>rest. trace (main a w d) =
          Print Status (''Starting deployment for environment: '' @ ENVIRONMENT a)
          # trace (check_prerequisites w d) @ trace (create_directories w d)
          @ trace (backup_current w d)
          @ Print Status ''Building Docker images...''
            # Compose COMPOSE_FILE ''build --no-cache'' # rest)
    \<and> Compose COMPOSE_FILE ''build --no-cache'' \<in> set (trace (main a w d))
    \<and> exited (main a w d) \<noteq> Some (Prerequisites, c)
    \<and> exited (main a w d) \<noteq> Some (Directories, c)
    \<and> exited (main a w d) \<noteq> Some (Backup, c)
    \<and> backups (disk (stages w d)) =
        backups d @ [\<lparr>stamp = clock w, mtime = mtime_now w,
                      files = (if containers_running w then [''docker_ps.txt''] else [])\<rparr>]"
proof -
  let ?d1 = "disk (create_directories w d)"
  have a: "exited (backup_current w e) = None" for e
    using assms(1-4) by (simp add: exited_backup_current)
  have b: "trace (backup_current w e) =
        [Print Status ''Creating backup of current deployment...'',
         Mkdir (BACKUP_DIR @ ''/'' @ BACKUP_NAME (clock w)), Docker ''ps -q'']
        @ (if containers_running w
           then [Docker ''ps -a'', Print Status ''Docker container list backed up''] else [])
        @ [Print Status (''Backup completed: '' @ BACKUP_NAME (clock w))]" for e
    using assms(1-4) by (simp add: backup_current_def Let_def)
  have c: "backups (disk (backup_current w e)) =
        backups e @ [\<lparr>stamp = clock w, mtime = mtime_now w,
                      files = (if containers_running w then [''docker_ps.txt''] else [])\<rparr>]"
    if "\<not> list_ex (\<lambda>b. backup_id b = BACKUP_NAME (clock w)) (backups e)" for e
    using assms(1-4) that
    by (simp add: backup_current_def Let_def new_backup_dir_def add_file_def
          add_file_other_names backup_id_new)
  note s = stages_through_backup [OF assms(6,7) a]
  from s(1) obtain rest where rest: "trace (stages w d) =
      trace (check_prerequisites w d) @ trace (create_directories w d)
      @ trace (backup_current w ?d1)
      @ Print Status ''Building Docker images...''
        # Compose COMPOSE_FILE ''build --no-cache'' # rest"
    by blast
  have same: "trace (backup_current w ?d1) = trace (backup_current w d)"
    by (simp only: b)
  have "\<exists>more. trace (main a w d) =
      Print Status (''Starting deployment for environment: '' @ ENVIRONMENT a)
      # trace (stages w d) @ more"
    by (simp add: main_split split: option.splits)
  then obtain more where more: "trace (main a w d) =
      Print Status (''Starting deployment for environment: '' @ ENVIRONMENT a)
      # trace (stages w d) @ more"
    by blast
  have run: "trace (main a w d) =
      Print Status (''Starting deployment for environment: '' @ ENVIRONMENT a)
      # trace (check_prerequisites w d) @ trace (create_directories w d)
      @ trace (backup_current w d)
      @ Print Status ''Building Docker images...''
        # Compose COMPOSE_FILE ''build --no-cache'' # (rest @ more)"
    by (simp add: more rest same)
  then have e: "\<exists>rest. trace (main a w d) =
      Print Status (''Starting deployment for environment: '' @ ENVIRONMENT a)
      # trace (check_prerequisites w d) @ trace (create_directories w d)
      @ trace (backup_current w d)
      @ Print Status ''Building Docker images...''
        # Compose COMPOSE_FILE ''build --no-cache'' # rest"
    by blast
  have f: "Compose COMPOSE_FILE ''build --no-cache'' \<in> set (trace (main a w d))"
    by (simp add: run)
  have g: "exited (main a w d) \<noteq> Some (Prerequisites, c)"
    "exited (main a w d) \<noteq> Some (Directories, c)"
    "exited (main a w d) \<noteq> Some (Backup, c)"
    using s(3-5) [of c]
    by (auto simp add: exited_main exited_finish split: option.splits if_splits)
  have "\<not> list_ex (\<lambda>b. backup_id b = BACKUP_NAME (clock w)) (backups ?d1)"
    using assms(5) by (simp add: backups_create_directories)
  then have h: "backups (disk (stages w d)) =
        backups d @ [\<lparr>stamp = clock w, mtime = mtime_now w,
                      files = (if containers_running w then [''docker_ps.txt''] else [])\<rparr>]"
    by (simp add: s(2) c backups_create_directories)
  from a [of d] b [of d] c [OF assms(5)] e f g h show ?thesis
    by blast
qed

theorem backup_without_environment_file_witness:
  "\<not> env_file_at_backup env_vanishes
   \<and> exited (check_prerequisites env_vanishes empty_disk) = None
   \<and> exited (create_directories env_vanishes empty_disk) = None
   \<and> exited (backup_current env_vanishes empty_disk) = None
   \<and> backups (disk (backup_current env_vanishes empty_disk)) =
       [\<lparr>stamp = noon, mtime = 700, files = [''docker_ps.txt'']\<rparr>]
   \<and> Compose COMPOSE_FILE ''build --no-cache''
       \<in> set (trace (main None env_vanishes empty_disk))
   \<and> backups (disk (stages env_vanishes empty_disk)) =
       [\<lparr>stamp = noon, mtime = 700, files = [''docker_ps.txt'']\<rparr>]"
proof -
  have h: "\<not> env_file_at_backup env_vanishes"
    "date_rc env_vanishes = 0"
    "mkdir_rc env_vanishes (BACKUP_DIR @ ''/'' @ BACKUP_NAME (clock env_vanishes)) = 0"
    "containers_running env_vanishes \<longrightarrow> docker_ps_rc env_vanishes = 0"
    "\<not> list_ex (\<lambda>b. backup_id b = BACKUP_NAME (clock env_vanishes)) (backups empty_disk)"
    "exited (check_prerequisites env_vanishes empty_disk) = None"
    "exited (create_directories env_vanishes empty_disk) = None"
    by (simp_all add: env_vanishes_def fine_def empty_disk_def exited_stage_eqs)
  have v: "containers_running env_vanishes" "clock env_vanishes = noon"
    "mtime_now env_vanishes = 700" "backups empty_disk = []"
    by (simp_all add: env_vanishes_def fine_def empty_disk_def)
  from backup_without_environment_file [OF h, of None] h(1,6,7) show ?thesis
    by (simp add: v)
qed


section \<open>Rollback, cleanup and the exit status\<close>

lemma stages_pass_samples:
  "exited (stages fine d) = None" "exited (stages two_down d) = None"
  "exited (stages teardown_killed d) = None" "exited (stages prune_fails d) = None"
  by (simp_all add: stages_def exited_stage_eqs fine_def two_down_def teardown_killed_def
        prune_fails_def)

lemma health_samples:
  "snd (health_check fine) = 0" "snd (health_check prune_fails) = 0"
  "snd (health_check two_down) = 1" "snd (health_check teardown_killed) = 1"
  by (simp_all add: health_check_def fine_def two_down_def teardown_killed_def prune_fails_def
        urls_distinct)



lemma main_after_failed_health:
  assumes "exited (stages w d) = None" and "snd (health_check w) \<noteq> 0"
  shows "trace (main a w d) =
      Print Status (''Starting deployment for environment: '' @ ENVIRONMENT a)
        # trace (stages w d) @ fst (health_check w)
        @ [Print Error ''Deployment failed! Rolling back...'', Compose COMPOSE_FILE ''down'']"
    and "exited (main a w d) =
        (if rollback_down_rc w = 0 then Some (HealthCheck, 1)
         else Some (Teardown, rollback_down_rc w))"
    and "disk (main a w d) = disk (stages w d)"
  using assms by (simp_all add: main_split finish_def)


text \<open>
  C3, as the script has it. When the five steps before the health check have passed
  and the health check fails, the script prints the rollback line, runs
  \<^verbatim>\<open>docker-compose down\<close> once, and emits nothing after it. When that teardown succeeds
  the script exits with status 1. When the teardown fails, \<^verbatim>\<open>set -e\<close> ends the script at
  once with the status of the teardown: the failure is not logged and \<^verbatim>\<open>exit 1\<close> is not
  reached.
\<close>

theorem rollback_tears_down_once:
  assumes "exited (stages w d) = None" and "snd (health_check w) \<noteq> 0"
  shows "trace (main a w d) =
      Print Status (''Starting deployment for environment: '' @ ENVIRONMENT a)
        # trace (stages w d) @ fst (health_check w)
        @ [Print Error ''Deployment failed! Rolling back...'', Compose COMPOSE_FILE ''down'']
    \<and> exited (main a w d) =
        (if rollback_down_rc w = 0 then Some (HealthCheck, 1)
         else Some (Teardown, rollback_down_rc w))
    \<and> exit_code (main a w d) = (if rollback_down_rc w = 0 then 1 else rollback_down_rc w)
    \<and> disk (main a w d) = disk (stages w d)"
  using main_after_failed_health [OF assms, of a] by (simp add: exit_code_def)

theorem rollback_tears_down_once_witness:
  "exited (stages two_down empty_disk) = None
   \<and> snd (health_check two_down) = 1
   \<and> exited (main None two_down empty_disk) = Some (HealthCheck, 1)
   \<and> exit_code (main None two_down empty_disk) = 1"
proof -
  have h: "exited (stages two_down empty_disk) = None" "snd (health_check two_down) \<noteq> 0"
    by (simp_all add: stages_pass_samples health_samples)
  have rc: "rollback_down_rc two_down = 0"
    by (simp add: two_down_def fine_def)
  from rollback_tears_down_once [OF h, of None] h(1) show ?thesis
    by (simp add: health_samples rc)
qed

text \<open>
  The health check fails and the teardown is killed: the script ends with the status of
  the teardown, 137, and the last thing it did is the teardown itself, with no line
  printed after it.
\<close>

theorem teardown_error_propagates_counterexample:
  "snd (health_check teardown_killed) = 1
   \<and> exit_code (main None teardown_killed empty_disk) = 137
   \<and> exited (main None teardown_killed empty_disk) = Some (Teardown, 137)
   \<and> last (trace (main None teardown_killed empty_disk)) = Compose COMPOSE_FILE ''down''"
proof -
  have h: "exited (stages teardown_killed empty_disk) = None"
    "snd (health_check teardown_killed) \<noteq> 0"
    by (simp_all add: stages_pass_samples health_samples)
  have rc: "rollback_down_rc teardown_killed = 137"
    by (simp add: teardown_killed_def)
  from main_after_failed_health [OF h, of None] show ?thesis
    by (simp add: exit_code_def health_samples rc)
qed








section \<open>Backup names and the order of time\<close>

lemma digit_less: "a < 10 \<Longrightarrow> b < 10 \<Longrightarrow> (digit a < digit b) = (a < b)"
  by (simp add: digit_def less_char_def)

lemma digit_eq: "a < 10 \<Longrightarrow> b < 10 \<Longrightarrow> (digit a = digit b) = (a = b)"
  by (simp add: digit_def char_of_eq_iff take_bit_eq_mod)

lemma digit_chars:
  "digit 0 = CHR ''0''" "digit 1 = CHR ''1''" "digit (Suc 0) = CHR ''1''" "digit 2 = CHR ''2''"
  "digit 3 = CHR ''3''" "digit 4 = CHR ''4''" "digit 5 = CHR ''5''" "digit 6 = CHR ''6''"
  "digit 7 = CHR ''7''" "digit 8 = CHR ''8''" "digit 9 = CHR ''9''"
  by (simp_all add: digit_def char_of_eq_iff)

lemma digit_zero: "CHR ''0'' = digit 0"
  by (simp add: digit_chars)


lemma append_less_same_length:
  "length u = length v \<Longrightarrow> (u @ s < v @ t) = (u < v \<or> u = v \<and> s < t)"
  by (induction u v rule: list_induct2) auto

lemma dec_not_Nil: "dec n \<noteq> []"
  by (subst dec.simps) simp

lemma dec_small: "n < 10 \<Longrightarrow> dec n = [digit n]"
  by (simp add: dec.simps)

lemma dec_large: "\<not> n < 10 \<Longrightarrow> dec n = dec (n div 10) @ [digit (n mod 10)]"
  by (subst dec.simps) simp

lemma dec_length_1: "(length (dec n) = 1) = (n < 10)"
proof (cases "n < 10")
  case True
  then show ?thesis by (simp add: dec_small)
next
  case False
  have "length (dec (n div 10)) \<noteq> 0"
    by (simp add: dec_not_Nil)
  with False show ?thesis
    by (simp add: dec_large)
qed

lemma lex_digits_less:
  fixes a b c d :: nat
  assumes "b < 10" "d < 10"
  shows "(a < c \<or> a = c \<and> b < d) = (10 * a + b < 10 * c + d)"
  using assms by auto

lemma lex_digits_eq:
  fixes a b c d :: nat
  assumes "b < 10" "d < 10"
  shows "(a = c \<and> b = d) = (10 * a + b = 10 * c + d)"
proof -
  have "(10 * a + b = 10 * c + d) = (\<not> 10 * a + b < 10 * c + d \<and> \<not> 10 * c + d < 10 * a + b)"
    by auto
  also have "\<dots> = (\<not> (a < c \<or> a = c \<and> b < d) \<and> \<not> (c < a \<or> c = a \<and> d < b))"
    by (simp only: lex_digits_less [OF assms] lex_digits_less [OF assms(2,1)])
  also have "\<dots> = (a = c \<and> b = d)"
    by auto
  finally show ?thesis
    by simp
qed

lemma tens_units:
  fixes x y :: nat
  shows "(x div 10 < y div 10 \<or> x div 10 = y div 10 \<and> x mod 10 < y mod 10) = (x < y)"
    and "(x div 10 = y div 10 \<and> x mod 10 = y mod 10) = (x = y)"
  using lex_digits_less [of "x mod 10" "y mod 10" "x div 10" "y div 10"]
    lex_digits_eq [of "x mod 10" "y mod 10" "x div 10" "y div 10"]
  by simp_all

text \<open>
  Among numbers with equally many digits, the order of the decimal strings is the order
  of the numbers.
\<close>

lemma dec_order:
  "length (dec x) = length (dec y) \<Longrightarrow> (dec x = dec y) = (x = y) \<and> (dec x < dec y) = (x < y)"
proof (induction x arbitrary: y rule: dec.induct)
  case (1 n)
  show ?case
  proof (cases "n < 10")
    case True
    with "1.prems" have "y < 10"
      using dec_length_1 [of y] dec_length_1 [of n] by simp
    with True show ?thesis
      by (simp add: dec_small digit_less digit_eq)
  next
    case False
    with "1.prems" have y: "\<not> y < 10"
      using dec_length_1 [of y] dec_length_1 [of n] by simp
    with False "1.prems" have len: "length (dec (n div 10)) = length (dec (y div 10))"
      by (simp add: dec_large)
    note ih = "1.IH" [OF False len]
    have m: "n mod 10 < 10" "y mod 10 < 10"
      by simp_all
    have eq: "(dec n = dec y) = (n = y)"
      using ih tens_units(2) [of n y]
      by (simp add: dec_large False y digit_eq m)
    have "(dec n < dec y) = (n div 10 < y div 10 \<or> n div 10 = y div 10 \<and> n mod 10 < y mod 10)"
      using ih by (simp add: dec_large False y append_less_same_length len digit_less m)
    then show ?thesis
      using eq tens_units(1) [of n y] by simp
  qed
qed

lemma dec4_length:
  assumes "1000 \<le> n" "n \<le> 9999"
  shows "length (dec n) = 4"
proof -
  have "\<not> n < 10" "\<not> n div 10 < 10" "\<not> n div 10 div 10 < 10" "n div 10 div 10 div 10 < 10"
    using assms by auto
  then show ?thesis
    by (simp add: dec_large dec_small)
qed

lemma pad2_two: "n < 100 \<Longrightarrow> pad2 n = [digit (n div 10), digit (n mod 10)]"
  by (cases "n < 10") (simp_all add: pad2_def dec_small dec_large digit_zero)

lemma pad2_order:
  assumes "x < 100" "y < 100"
  shows "(pad2 x < pad2 y) = (x < y)" "(pad2 x = pad2 y) = (x = y)"
    "length (pad2 x) = length (pad2 y)"
proof -
  have b: "x div 10 < 10" "y div 10 < 10" "x mod 10 < 10" "y mod 10 < 10"
    using assms by auto
  show "(pad2 x < pad2 y) = (x < y)"
    using tens_units(1) [of x y] by (simp add: pad2_two assms digit_less digit_eq b)
  show "(pad2 x = pad2 y) = (x = y)"
    using tens_units(2) [of x y] by (simp add: pad2_two assms digit_eq b)
  show "length (pad2 x) = length (pad2 y)"
    by (simp add: pad2_two assms)
qed

lemma year_order:
  assumes "four_digit_year a" "four_digit_year b"
  shows "(dec (tm_year a) < dec (tm_year b)) = (tm_year a < tm_year b)"
    "(dec (tm_year a) = dec (tm_year b)) = (tm_year a = tm_year b)"
    "length (dec (tm_year a)) = length (dec (tm_year b))"
proof -
  show len: "length (dec (tm_year a)) = length (dec (tm_year b))"
    using assms by (simp add: four_digit_year_def dec4_length)
  show "(dec (tm_year a) < dec (tm_year b)) = (tm_year a < tm_year b)"
    "(dec (tm_year a) = dec (tm_year b)) = (tm_year a = tm_year b)"
    using dec_order [OF len] by simp_all
qed

lemma date_stamp_order:
  assumes "four_digit_year a" "four_digit_year b" "two_digit_fields a" "two_digit_fields b"
  shows "(date_stamp a < date_stamp b) = before a b"
proof -
  have f: "tm_mon a < 100" "tm_mday a < 100" "tm_hour a < 100" "tm_min a < 100" "tm_sec a < 100"
    "tm_mon b < 100" "tm_mday b < 100" "tm_hour b < 100" "tm_min b < 100" "tm_sec b < 100"
    using assms by (simp_all add: two_digit_fields_def)
  have last: "(pad2 (tm_sec a) < pad2 (tm_sec b)) = (tm_sec a < tm_sec b)"
    by (simp add: pad2_order f)
  show ?thesis
    unfolding date_stamp_def before_def
    by (simp only: append_less_same_length [OF year_order(3) [OF assms(1,2)]]
          year_order(1,2) [OF assms(1,2)]
          append_less_same_length [OF pad2_order(3)] pad2_order(1,2) f last
          append_Cons append_Nil Cons_less_Cons simp_thms less_irrefl)
qed

lemma lex_antisym:
  fixes x y :: nat
  shows "(\<not> (x < y \<or> x = y \<and> P) \<and> \<not> (y < x \<or> y = x \<and> Q)) = (x = y \<and> \<not> P \<and> \<not> Q)"
  by auto

lemma before_neither: "(\<not> before a b \<and> \<not> before b a) = (a = b)"
proof -
  have "(\<not> before a b \<and> \<not> before b a) =
      (tm_year a = tm_year b \<and> tm_mon a = tm_mon b \<and> tm_mday a = tm_mday b \<and>
       tm_hour a = tm_hour b \<and> tm_min a = tm_min b \<and> tm_sec a = tm_sec b)"
    unfolding before_def by (simp only: lex_antisym) auto
  also have "\<dots> = (a = b)"
    by (cases a; cases b) simp
  finally show ?thesis .
qed

lemma date_stamp_inj:
  assumes "four_digit_year a" "four_digit_year b" "two_digit_fields a" "two_digit_fields b"
  shows "(date_stamp a = date_stamp b) = (a = b)"
proof -
  have "(date_stamp a = date_stamp b) =
      (\<not> date_stamp a < date_stamp b \<and> \<not> date_stamp b < date_stamp a)"
    by auto
  also have "\<dots> = (\<not> before a b \<and> \<not> before b a)"
    by (simp only: date_stamp_order [OF assms] date_stamp_order [OF assms(2,1,4,3)])
  finally show ?thesis
    by (simp only: before_neither)
qed

text \<open>
  C8, as the format has it. The name is made from the reading of the local clock. For
  two readings with a year of four digits (1000 to 9999; the other fields as \<^verbatim>\<open>date\<close>
  prints them, with two digits), the name made from the later reading is the greater
  string, and two names are equal exactly when the readings are the same second.
\<close>

theorem backup_name_order:
  assumes "four_digit_year a" "four_digit_year b" "two_digit_fields a" "two_digit_fields b"
  shows "(BACKUP_NAME a < BACKUP_NAME b) = before a b
    \<and> (BACKUP_NAME a = BACKUP_NAME b) = (a = b)"
  using date_stamp_order [OF assms] date_stamp_inj [OF assms] by (simp add: BACKUP_NAME_def)

theorem backup_name_order_witness:
  "four_digit_year (on_day 1) \<and> four_digit_year (on_day 2)
   \<and> two_digit_fields (on_day 1) \<and> two_digit_fields (on_day 2)
   \<and> before (on_day 1) (on_day 2)
   \<and> BACKUP_NAME (on_day 1) < BACKUP_NAME (on_day 2)
   \<and> BACKUP_NAME (on_day 1) \<noteq> BACKUP_NAME (on_day 2)"
proof -
  have h: "four_digit_year (on_day 1)" "four_digit_year (on_day 2)"
    "two_digit_fields (on_day 1)" "two_digit_fields (on_day 2)"
    by (simp_all add: four_digit_year_def two_digit_fields_def on_day_def noon_def)
  have b: "before (on_day 1) (on_day 2)"
    by (simp add: before_def on_day_def noon_def)
  from backup_name_order [OF h] h b show ?thesis
    by (simp add: on_day_def noon_def)
qed

lemma switch_names:
  "BACKUP_NAME (clock before_switch) = ''backup_20241027_023000''"
  "BACKUP_NAME (clock after_switch) = ''backup_20241027_021000''"
  by (simp_all add: BACKUP_NAME_def date_stamp_def pad2_def dec.simps digit_chars
        before_switch_def after_switch_def fine_def)

text \<open>
  In the night in which summer time ends, the backup taken at 02:30 summer time is
  made forty minutes before the backup taken at 02:10 standard time, but its name is
  the greater string: the names follow the reading of the local clock, not the moment
  of creation.
\<close>

theorem backup_name_clock_set_back_counterexample:
  "instant before_switch < instant after_switch
   \<and> map backup_id (backups (disk (backup_current before_switch empty_disk))) =
       [''backup_20241027_023000'']
   \<and> map backup_id (backups (disk (backup_current after_switch empty_disk))) =
       [''backup_20241027_021000'']
   \<and> ''backup_20241027_021000'' < ''backup_20241027_023000''"
proof -
  have a: "instant before_switch < instant after_switch"
    by (simp add: before_switch_def after_switch_def)
  have b: "map backup_id (backups (disk (backup_current before_switch empty_disk))) =
       [BACKUP_NAME (clock before_switch)]"
    by (simp add: backup_current_def Let_def new_backup_dir_def add_file_def backup_id_def
          before_switch_def fine_def empty_disk_def)
  have c: "map backup_id (backups (disk (backup_current after_switch empty_disk))) =
       [BACKUP_NAME (clock after_switch)]"
    by (simp add: backup_current_def Let_def new_backup_dir_def add_file_def backup_id_def
          after_switch_def fine_def empty_disk_def)
  from a b c show ?thesis
    by (simp add: switch_names)
qed

text \<open>
  The bound on the year cannot be dropped. The first second of the year 10000 comes
  after the last second of the year 9999, but its name, which starts with
  \<^verbatim>\<open>backup_1\<close>, is the smaller string.
\<close>

lemma backup_name_year_10000:
  "before last_of_9999 first_of_10000
   \<and> BACKUP_NAME first_of_10000 < BACKUP_NAME last_of_9999
   \<and> BACKUP_NAME last_of_9999 = ''backup_99991231_235959''
   \<and> BACKUP_NAME first_of_10000 = ''backup_100000101_000000''"
proof -
  have a: "before last_of_9999 first_of_10000"
    by (simp add: before_def last_of_9999_def first_of_10000_def)
  have b: "BACKUP_NAME last_of_9999 = ''backup_99991231_235959''"
    by (simp add: BACKUP_NAME_def date_stamp_def pad2_def dec.simps digit_chars
          last_of_9999_def)
  have c: "BACKUP_NAME first_of_10000 = ''backup_100000101_000000''"
    by (simp add: BACKUP_NAME_def date_stamp_def pad2_def dec.simps digit_chars
          first_of_10000_def)
  from a b c show ?thesis
    by simp
qed


section \<open>Retention of backups\<close>














end
